theory Spec2Isabelle
  imports Complex_Main
begin

section \<open>Data model (src/types/index.ts)\<close>

text \<open>
  JavaScript strings are compared with \<open>===\<close> only, so a string is modelled by the bytes
  of its UTF-8 encoding, which is what the source file holds: equal strings have equal
  encodings and conversely. The one character outside ASCII in the data is the rupee sign
  U+20B9. The \<open>number\<close> fields hold integers in every value of the repository and no
  arithmetic is done on them by the store; they are modelled as \<open>int\<close>.
  Field names that several interfaces share, or that are constants of HOL, carry the
  initial of their interface as a suffix.
\<close>

record User =
  id_U :: string
  name_U :: string
  email :: string
  avatar :: string
  level :: int
  currentXP :: int
  targetXP :: int
  title_U :: string
  memberSince :: string

datatype category = discount | voucher | cashback | exclusive

text \<open>The optional field \<open>terms?\<close> is absent (\<open>None\<close>) or a string.\<close>

record Benefit =
  id_B :: string
  title_B :: string
  description :: string
  icon :: string
  value_B :: string
  category :: category
  claimed :: bool
  expiresAt :: string
  terms :: "string option"

datatype trend = up | down | stable

record RewardPoints =
  current :: int
  total :: int
  thisMonth :: int
  lastMonth :: int
  trend :: trend
  nextMilestone :: int

text \<open>
  The store initialises \<open>user\<close> and \<open>rewardPoints\<close> with \<open>null as any\<close>, so at run time
  both fields are either \<open>null\<close> (\<open>None\<close>) or an object.
\<close>

record DashboardData =
  user :: "User option"
  benefits :: "Benefit list"
  rewardPoints :: "RewardPoints option"
  isLoading :: bool

section \<open>Mock data (src/data/mockData.ts)\<close>

definition rupee :: string where
  "rupee = [CHR 0xE2, CHR 0x82, CHR 0xB9]"

definition mockUser :: User where
  "mockUser = \<lparr>
     id_U = ''1'',
     name_U = ''Arjun Mehta'',
     email = ''arjun.mehta@example.com'',
     avatar = ''https://images.pexels.com/photos/2379004/pexels-photo-2379004.jpeg?auto=compress&cs=tinysrgb&w=150&h=150&dpr=2'',
     level = 7,
     currentXP = 2840,
     targetXP = 3500,
     title_U = ''Gold Member'',
     memberSince = ''2022-03-15'' \<rparr>"

definition mockBenefits :: "Benefit list" where
  "mockBenefits = [
     \<lparr> id_B = ''1'',
       title_B = ''20% Off Premium Dining'',
       description = ''Exclusive discount at top restaurants across Mumbai and Delhi'',
       icon = ''utensils'',
       value_B = rupee @ ''2,500'',
       category = discount,
       claimed = False,
       expiresAt = ''2024-02-28'',
       terms = Some (''Valid only on weekdays. Minimum order '' @ rupee @ ''1000.'') \<rparr>,
     \<lparr> id_B = ''2'',
       title_B = ''Netflix Premium Voucher'',
       description = ''3 months free Netflix subscription worth '' @ rupee @ ''2,397'',
       icon = ''tv'',
       value_B = rupee @ ''2,397'',
       category = voucher,
       claimed = False,
       expiresAt = ''2024-01-31'',
       terms = None \<rparr>,
     \<lparr> id_B = ''3'',
       title_B = ''5% Cashback on Fuel'',
       description = ''Get cashback on fuel payments across all major petrol pumps'',
       icon = ''fuel'',
       value_B = ''5%'',
       category = cashback,
       claimed = True,
       expiresAt = ''2024-03-31'',
       terms = None \<rparr>,
     \<lparr> id_B = ''4'',
       title_B = ''Airport Lounge Access'',
       description = ''Complimentary access to premium airport lounges'',
       icon = ''plane'',
       value_B = ''Free'',
       category = exclusive,
       claimed = False,
       expiresAt = ''2024-12-31'',
       terms = None \<rparr>,
     \<lparr> id_B = ''5'',
       title_B = ''Swiggy Super Membership'',
       description = ''6 months of free delivery and exclusive discounts'',
       icon = ''bike'',
       value_B = rupee @ ''899'',
       category = voucher,
       claimed = False,
       expiresAt = ''2024-02-15'',
       terms = None \<rparr>,
     \<lparr> id_B = ''6'',
       title_B = ''Myntra Fashion Voucher'',
       description = rupee @ ''1000 shopping voucher for fashion and lifestyle'',
       icon = ''shopping-bag'',
       value_B = rupee @ ''1,000'',
       category = voucher,
       claimed = False,
       expiresAt = ''2024-01-30'',
       terms = None \<rparr> ]"

definition mockRewardPoints :: RewardPoints where
  "mockRewardPoints = \<lparr>
     current = 15420,
     total = 47890,
     thisMonth = 2840,
     lastMonth = 3120,
     trend = down,
     nextMilestone = 20000 \<rparr>"

section \<open>Promises\<close>

text \<open>
  An awaited promise settles in one of two ways: it is fulfilled with a value, or it is
  rejected with a reason, which \<open>await\<close> throws. The time at which it settles (the
  \<open>setTimeout\<close> delays of the gateway) is not part of the model.
\<close>

datatype js_error = Error string

datatype 'a settled = Fulfilled 'a | Rejected js_error

section \<open>Data gateway (dashboardApi)\<close>

text \<open>
  \<open>dashboardApi.getDashboardData\<close> takes no argument, waits, and returns the aggregated
  mock data: its promise is always fulfilled.
\<close>

definition dashboardApi_getDashboardData :: "DashboardData settled" where
  "dashboardApi_getDashboardData = Fulfilled \<lparr>
     user = Some mockUser,
     benefits = mockBenefits,
     rewardPoints = Some mockRewardPoints,
     isLoading = False \<rparr>"

text \<open>
  \<open>dashboardApi.claimBenefit\<close> waits and returns \<open>Math.random() > 0.1\<close>. The value drawn by
  \<open>Math.random()\<close> is the parameter \<open>r\<close>; the draw and the literal \<open>0.1\<close> are read as real
  numbers, without the rounding of IEEE doubles. The argument \<open>benefitId\<close> is not used by the body, and the gateway has no
  access to the store.
\<close>

definition dashboardApi_claimBenefit :: "string \<Rightarrow> real \<Rightarrow> bool settled" where
  "dashboardApi_claimBenefit benefitId r = Fulfilled (r > 0.1)"

section \<open>Dashboard store (src/store/dashboardStore.ts)\<close>

text \<open>
  The world the store acts on: its state (the four data fields; the three function fields
  are never written) and the messages given to \<open>console.error\<close>, oldest first.
  \<open>set(partial)\<close> of zustand merges the fields of \<open>partial\<close> into the state and keeps the
  others; each call is written as the record update it performs.
\<close>

record world =
  store :: DashboardData
  console :: "(string \<times> js_error) list"

definition initial_store :: DashboardData where
  "initial_store = \<lparr> user = None, benefits = [], rewardPoints = None, isLoading = True \<rparr>"

definition initial_world :: world where
  "initial_world = \<lparr> store = initial_store, console = [] \<rparr>"

definition set_store :: "(DashboardData \<Rightarrow> DashboardData) \<Rightarrow> world \<Rightarrow> world" where
  "set_store f w = w\<lparr>store := f (store w)\<rparr>"

definition console_error :: "string \<Rightarrow> js_error \<Rightarrow> world \<Rightarrow> world" where
  "console_error msg e w = w\<lparr>console := console w @ [(msg, e)]\<rparr>"

subsection \<open>loadDashboardData\<close>

text \<open>
  An \<open>async\<close> function runs up to its \<open>await\<close> when it is called and the rest when the
  awaited promise settles; other calls may run in between. \<open>loadDashboardData_call\<close> is
  the first part, \<open>loadDashboardData_settle\<close> the second, given how the gateway's promise
  settled and the world at that moment. The second part is the \<open>try\<close> block, whose
  \<open>await\<close> throws the reason of a rejection before anything is written, and the \<open>catch\<close>
  block, which returns normally. The result is the world and how the promise of the
  store's own function settles.
\<close>

definition loadDashboardData_call :: "world \<Rightarrow> world" where
  "loadDashboardData_call w = set_store (\<lambda>s. s\<lparr>isLoading := True\<rparr>) w"

fun loadDashboardData_try :: "DashboardData settled \<Rightarrow> world \<Rightarrow> js_error + world" where
  "loadDashboardData_try (Rejected error) w = Inl error"
| "loadDashboardData_try (Fulfilled data) w =
     Inr (set_store (\<lambda>s. s\<lparr>user := user data, benefits := benefits data,
                            rewardPoints := rewardPoints data, isLoading := False\<rparr>) w)"

definition loadDashboardData_catch :: "js_error \<Rightarrow> world \<Rightarrow> world" where
  "loadDashboardData_catch error w =
     set_store (\<lambda>s. s\<lparr>isLoading := False\<rparr>)
       (console_error ''Failed to load dashboard data:'' error w)"

definition loadDashboardData_settle ::
  "DashboardData settled \<Rightarrow> world \<Rightarrow> unit settled \<times> world" where
  "loadDashboardData_settle r w =
     (case loadDashboardData_try r w of
        Inr w' \<Rightarrow> (Fulfilled (), w')
      | Inl error \<Rightarrow> (Fulfilled (), loadDashboardData_catch error w))"

text \<open>A call of \<open>load\<close> with nothing else running before the gateway answers.\<close>

definition loadDashboardData :: "DashboardData settled \<Rightarrow> world \<Rightarrow> unit settled \<times> world" where
  "loadDashboardData r w = loadDashboardData_settle r (loadDashboardData_call w)"

subsection \<open>claimBenefit\<close>

text \<open>
  The part of \<open>claimBenefit\<close> before its \<open>await\<close> calls the gateway and writes nothing;
  the only variable it keeps for the second part is \<open>benefitId\<close>. The second part reads
  the store with \<open>get()\<close> when it runs.
\<close>

definition claimBenefit_call :: "string \<Rightarrow> world \<Rightarrow> world" where
  "claimBenefit_call benefitId w = w"

fun claimBenefit_try :: "string \<Rightarrow> bool settled \<Rightarrow> world \<Rightarrow> js_error + world" where
  "claimBenefit_try benefitId (Rejected error) w = Inl error"
| "claimBenefit_try benefitId (Fulfilled success) w =
     (if success
      then Inr (set_store (\<lambda>s. s\<lparr>benefits :=
                  map (\<lambda>benefit. if id_B benefit = benefitId
                                  then benefit\<lparr>claimed := True\<rparr> else benefit)
                      (benefits (store w))\<rparr>) w)
      else Inr w)"

definition claimBenefit_catch :: "js_error \<Rightarrow> world \<Rightarrow> world" where
  "claimBenefit_catch error w = console_error ''Failed to claim benefit:'' error w"

definition claimBenefit_settle :: "string \<Rightarrow> bool settled \<Rightarrow> world \<Rightarrow> unit settled \<times> world" where
  "claimBenefit_settle benefitId r w =
     (case claimBenefit_try benefitId r w of
        Inr w' \<Rightarrow> (Fulfilled (), w')
      | Inl error \<Rightarrow> (Fulfilled (), claimBenefit_catch error w))"

definition claimBenefit :: "string \<Rightarrow> bool settled \<Rightarrow> world \<Rightarrow> unit settled \<times> world" where
  "claimBenefit benefitId r w = claimBenefit_settle benefitId r (claimBenefit_call benefitId w)"

subsection \<open>setLoading\<close>

definition setLoading :: "bool \<Rightarrow> world \<Rightarrow> world" where
  "setLoading loading w = set_store (\<lambda>s. s\<lparr>isLoading := loading\<rparr>) w"

subsection \<open>Interleaved executions\<close>

text \<open>
  The runtime is single-threaded: what happens to the store is a sequence of events, each
  the first part of a call or the settling of a gateway promise that an earlier call
  awaits. \<open>run\<close> plays such a sequence from a world.
\<close>

datatype event =
    Load_called
  | Load_settled "DashboardData settled"
  | Claim_called string
  | Claim_settled string "bool settled"
  | SetLoading_called bool

fun step :: "world \<Rightarrow> event \<Rightarrow> world" where
  "step w Load_called = loadDashboardData_call w"
| "step w (Load_settled r) = snd (loadDashboardData_settle r w)"
| "step w (Claim_called benefitId) = claimBenefit_call benefitId w"
| "step w (Claim_settled benefitId r) = snd (claimBenefit_settle benefitId r w)"
| "step w (SetLoading_called loading) = setLoading loading w"

definition run :: "world \<Rightarrow> event list \<Rightarrow> world" where
  "run w es = foldl step w es"

section \<open>Equations for whole calls\<close>

lemma claimBenefit_true:
  "claimBenefit benefitId (Fulfilled True) w =
     (Fulfilled (), w\<lparr>store := (store w)\<lparr>benefits :=
        map (\<lambda>benefit. if id_B benefit = benefitId then benefit\<lparr>claimed := True\<rparr> else benefit)
            (benefits (store w))\<rparr>\<rparr>)"
  by (simp add: claimBenefit_def claimBenefit_settle_def claimBenefit_call_def set_store_def)

lemma claimBenefit_false:
  "claimBenefit benefitId (Fulfilled False) w = (Fulfilled (), w)"
  by (simp add: claimBenefit_def claimBenefit_settle_def claimBenefit_call_def)

lemma claimBenefit_rejected:
  "claimBenefit benefitId (Rejected e) w =
     (Fulfilled (), w\<lparr>console := console w @ [(''Failed to claim benefit:'', e)]\<rparr>)"
  by (simp add: claimBenefit_def claimBenefit_settle_def claimBenefit_call_def
      claimBenefit_catch_def console_error_def)

lemma loadDashboardData_fulfilled:
  "loadDashboardData (Fulfilled data) w =
     (Fulfilled (), w\<lparr>store := (store w)\<lparr>user := user data, benefits := benefits data,
        rewardPoints := rewardPoints data, isLoading := False\<rparr>\<rparr>)"
  by (simp add: loadDashboardData_def loadDashboardData_settle_def loadDashboardData_call_def
      set_store_def)

lemma loadDashboardData_rejected:
  "loadDashboardData (Rejected e) w =
     (Fulfilled (), w\<lparr>console := console w @ [(''Failed to load dashboard data:'', e)],
                       store := (store w)\<lparr>isLoading := False\<rparr>\<rparr>)"
  by (simp add: loadDashboardData_def loadDashboardData_settle_def loadDashboardData_call_def
      loadDashboardData_catch_def set_store_def console_error_def)

lemma claimBenefit_cases:
  obtains "r = Fulfilled True" | "r = Fulfilled False" | e where "r = Rejected e"
proof (cases r)
  case (Fulfilled success)
  then show ?thesis using that(1,2) by (cases success) auto
next
  case (Rejected e)
  then show ?thesis using that(3) by blast
qed

lemma run_append: "run w (es @ es') = run (run w es) es'"
  by (simp add: run_def)

lemma run_Cons: "run w (e # es) = run (step w e) es"
  by (simp add: run_def)

lemma run_Nil: "run w [] = w"
  by (simp add: run_def)

text \<open>The store after the reference gateway has answered the first \<open>load\<close>.\<close>

lemma loaded_store:
  "store (snd (loadDashboardData dashboardApi_getDashboardData initial_world)) =
     \<lparr> user = Some mockUser, benefits = mockBenefits,
       rewardPoints = Some mockRewardPoints, isLoading = False \<rparr>"
  by (simp add: dashboardApi_getDashboardData_def loadDashboardData_fulfilled initial_world_def
      initial_store_def)

text \<open>The update that \<open>claimBenefit\<close> maps over the collection.\<close>

lemma claim_map_idem:
  "map (\<lambda>benefit. if id_B benefit = benefitId then benefit\<lparr>claimed := True\<rparr> else benefit)
     (map (\<lambda>benefit. if id_B benefit = benefitId then benefit\<lparr>claimed := True\<rparr> else benefit) bs)
   = map (\<lambda>benefit. if id_B benefit = benefitId then benefit\<lparr>claimed := True\<rparr> else benefit) bs"
  by (induction bs) simp_all

lemma claim_map_nth:
  assumes "i < length bs"
  shows "map (\<lambda>benefit. if id_B benefit = benefitId then benefit\<lparr>claimed := True\<rparr> else benefit) bs ! i
       = (if id_B (bs ! i) = benefitId then (bs ! i)\<lparr>claimed := True\<rparr> else bs ! i)"
  using assms by simp

lemma claim_map_claimed:
  assumes "i < length bs"
    and "id_B (map (\<lambda>benefit. if id_B benefit = benefitId then benefit\<lparr>claimed := True\<rparr> else benefit) bs ! i) = benefitId"
  shows "claimed (map (\<lambda>benefit. if id_B benefit = benefitId then benefit\<lparr>claimed := True\<rparr> else benefit) bs ! i)"
proof (cases "id_B (bs ! i) = benefitId")
  case True
  with assms(1) show ?thesis by (simp add: claim_map_nth)
next
  case False
  with assms show ?thesis by (simp add: claim_map_nth)
qed

lemma claim_map_count:
  "length (filter (\<lambda>b. id_B b = benefitId \<and> claimed b)
          (map (\<lambda>benefit. if id_B benefit = benefitId then benefit\<lparr>claimed := True\<rparr>
                           else benefit) bs)) =
        length (filter (\<lambda>b. id_B b = benefitId) bs)"
  by (induction bs) simp_all

lemma claimBenefit_true_benefits:
  "benefits (store (snd (claimBenefit benefitId (Fulfilled True) w))) =
     map (\<lambda>benefit. if id_B benefit = benefitId then benefit\<lparr>claimed := True\<rparr> else benefit)
       (benefits (store w))"
  by (simp add: claimBenefit_true)

section \<open>Claiming a benefit\<close>

text \<open>
  C1. When the gateway resolves \<open>true\<close> for \<open>claimBenefit(id)\<close>, the collection of the store
  keeps its length; every entry whose identifier equals \<open>id\<close> has \<open>claimed = true\<close> and is
  otherwise the entry it was; every other entry is the entry it was.
\<close>

theorem claimBenefit_success_collection:
  "let bs = benefits (store w);
       bs' = benefits (store (snd (claimBenefit benefitId (Fulfilled True) w)))
   in length bs' = length bs \<and>
      (\<forall>i < length bs.
         (id_B (bs ! i) = benefitId \<longrightarrow>
            claimed (bs' ! i) \<and> bs' ! i = (bs ! i)\<lparr>claimed := True\<rparr>) \<and>
         (id_B (bs ! i) \<noteq> benefitId \<longrightarrow> bs' ! i = bs ! i))"
  by (simp add: claimBenefit_true)

theorem claimBenefit_success_collection_witness:
  "let w = \<lparr> store = \<lparr> user = None, benefits = mockBenefits, rewardPoints = None,
                        isLoading = False \<rparr>, console = [] \<rparr>;
       bs' = benefits (store (snd (claimBenefit ''1'' (Fulfilled True) w)))
   in length bs' = 6 \<and> (0::nat) < 6 \<and> id_B (mockBenefits ! 0) = ''1'' \<and>
      claimed (bs' ! 0) \<and> bs' ! 0 = (mockBenefits ! 0)\<lparr>claimed := True\<rparr> \<and>
      (1::nat) < 6 \<and> id_B (mockBenefits ! 1) \<noteq> ''1'' \<and> bs' ! 1 = mockBenefits ! 1"
proof -
  let ?w = "\<lparr> store = \<lparr> user = None, benefits = mockBenefits, rewardPoints = None,
                        isLoading = False \<rparr>, console = [] \<rparr>"
  have len: "length mockBenefits = 6"
    by (simp add: mockBenefits_def)
  have id0: "id_B (mockBenefits ! 0) = ''1''" and id1: "id_B (mockBenefits ! 1) \<noteq> ''1''"
    by (simp_all add: mockBenefits_def)
  note inst = claimBenefit_success_collection [of ?w "''1''", unfolded Let_def, simplified]
  from inst have "length (benefits (store (snd (claimBenefit ''1'' (Fulfilled True) ?w)))) = 6"
    using len by simp
  moreover from inst len id0
  have "claimed (benefits (store (snd (claimBenefit ''1'' (Fulfilled True) ?w))) ! 0) \<and>
        benefits (store (snd (claimBenefit ''1'' (Fulfilled True) ?w))) ! 0
          = (mockBenefits ! 0)\<lparr>claimed := True\<rparr>"
    by simp
  moreover from inst len id1
  have "benefits (store (snd (claimBenefit ''1'' (Fulfilled True) ?w))) ! 1 = mockBenefits ! 1"
    by simp
  ultimately show ?thesis
    using id0 id1 by (simp add: Let_def)
qed

text \<open>
  C4. When the gateway resolves \<open>false\<close> for \<open>claimBenefit(id)\<close>, and when its promise is
  rejected, the store state (user, benefits, rewardPoints, isLoading) after the call is
  the state before it, and the promise of the store's \<open>claimBenefit\<close> is fulfilled: nothing
  is thrown to the caller.
\<close>

theorem claimBenefit_failure_state_unchanged:
  "store (snd (claimBenefit benefitId (Fulfilled False) w)) = store w \<and>
   fst (claimBenefit benefitId (Fulfilled False) w) = Fulfilled () \<and>
   store (snd (claimBenefit benefitId (Rejected e) w)) = store w \<and>
   fst (claimBenefit benefitId (Rejected e) w) = Fulfilled ()"
  by (simp add: claimBenefit_false claimBenefit_rejected)

text \<open>
  C5. For an identifier that no entry of the collection has, \<open>claimBenefit(id)\<close> leaves the
  collection as it was, however the gateway's promise settles (\<open>true\<close>, \<open>false\<close> or a
  rejection), and nothing is thrown.
\<close>

theorem claimBenefit_unknown_id:
  assumes "benefitId \<notin> id_B ` set (benefits (store w))"
  shows "benefits (store (snd (claimBenefit benefitId r w))) = benefits (store w) \<and>
         fst (claimBenefit benefitId r w) = Fulfilled ()"
proof (cases r rule: claimBenefit_cases)
  case 1
  have "map (\<lambda>benefit. if id_B benefit = benefitId then benefit\<lparr>claimed := True\<rparr> else benefit)
          (benefits (store w)) = benefits (store w)"
    using assms by (intro map_idI) auto
  with 1 show ?thesis
    by (simp add: claimBenefit_true)
next
  case 2
  then show ?thesis
    by (simp add: claimBenefit_false)
next
  case (3 e)
  then show ?thesis
    by (simp add: claimBenefit_rejected)
qed

theorem claimBenefit_unknown_id_witness:
  "''7'' \<notin> id_B ` set mockBenefits \<and>
   benefits (store (snd (claimBenefit ''7'' (Fulfilled True)
     \<lparr> store = \<lparr> user = None, benefits = mockBenefits, rewardPoints = None,
                  isLoading = False \<rparr>, console = [] \<rparr>))) = mockBenefits"
proof -
  have h: "''7'' \<notin> id_B ` set mockBenefits"
    by (simp add: mockBenefits_def)
  show ?thesis
    using h claimBenefit_unknown_id
      [of "''7''" "\<lparr> store = \<lparr> user = None, benefits = mockBenefits, rewardPoints = None,
                  isLoading = False \<rparr>, console = [] \<rparr>" "Fulfilled True"]
    by simp
qed

text \<open>
  C7. A successful \<open>claimBenefit(id)\<close> leaves every entry with that identifier claimed, and
  a second successful \<open>claimBenefit(id)\<close> changes nothing: the world after it is the world
  after the first, so the entries are still claimed, the collection has the length it had
  at the start and no entry has been added.
\<close>

theorem claimBenefit_idempotent:
  "let w1 = snd (claimBenefit benefitId (Fulfilled True) w);
       w2 = snd (claimBenefit benefitId (Fulfilled True) w1)
   in (\<forall>i < length (benefits (store w1)).
         id_B (benefits (store w1) ! i) = benefitId \<longrightarrow> claimed (benefits (store w1) ! i)) \<and>
      w2 = w1 \<and>
      length (benefits (store w2)) = length (benefits (store w))"
proof -
  let ?f = "\<lambda>benefit. if id_B benefit = benefitId then benefit\<lparr>claimed := True\<rparr> else benefit"
  let ?w1 = "snd (claimBenefit benefitId (Fulfilled True) w)"
  have bs1: "benefits (store ?w1) = map ?f (benefits (store w))"
    by (rule claimBenefit_true_benefits)
  have all: "\<forall>i < length (benefits (store ?w1)).
      id_B (benefits (store ?w1) ! i) = benefitId \<longrightarrow> claimed (benefits (store ?w1) ! i)"
    unfolding bs1 using claim_map_claimed [of _ "benefits (store w)" benefitId] by simp
  have "snd (claimBenefit benefitId (Fulfilled True) ?w1) =
          ?w1\<lparr>store := (store ?w1)\<lparr>benefits := map ?f (benefits (store ?w1))\<rparr>\<rparr>"
    by (simp only: claimBenefit_true snd_conv)
  also have "map ?f (benefits (store ?w1)) = benefits (store ?w1)"
    unfolding bs1 by (rule claim_map_idem)
  finally have same: "snd (claimBenefit benefitId (Fulfilled True) ?w1) = ?w1"
    by simp
  have len: "length (benefits (store ?w1)) = length (benefits (store w))"
    unfolding bs1 by simp
  show ?thesis
    unfolding Let_def using all same len by simp
qed
theorem claimBenefit_idempotent_witness:
  "let w = snd (loadDashboardData dashboardApi_getDashboardData initial_world);
       w1 = snd (claimBenefit ''1'' (Fulfilled True) w);
       w2 = snd (claimBenefit ''1'' (Fulfilled True) w1)
   in (0::nat) < length (benefits (store w1)) \<and>
      id_B (benefits (store w1) ! 0) = ''1'' \<and> claimed (benefits (store w1) ! 0) \<and>
      \<not> claimed (benefits (store w) ! 0) \<and>
      w2 = w1 \<and> length (benefits (store w2)) = 6"
proof -
  let ?w = "snd (loadDashboardData dashboardApi_getDashboardData initial_world)"
  let ?w1 = "snd (claimBenefit ''1'' (Fulfilled True) ?w)"
  note inst = claimBenefit_idempotent [of "''1''" ?w, unfolded Let_def]
  have bs: "benefits (store ?w) = mockBenefits"
    by (simp add: loaded_store)
  have bs1: "benefits (store ?w1) =
      map (\<lambda>benefit. if id_B benefit = ''1'' then benefit\<lparr>claimed := True\<rparr> else benefit)
        mockBenefits"
    by (simp add: claimBenefit_true bs)
  have mem: "0 < length (benefits (store ?w1))"
    unfolding bs1 by (simp add: mockBenefits_def)
  have id1: "id_B (benefits (store ?w1) ! 0) = ''1''"
    unfolding bs1 by (simp add: mockBenefits_def)
  from inst mem id1 have c1: "claimed (benefits (store ?w1) ! 0)"
    by blast
  have c0: "\<not> claimed (benefits (store ?w) ! 0)"
    unfolding bs by (simp add: mockBenefits_def)
  from inst have same: "snd (claimBenefit ''1'' (Fulfilled True) ?w1) = ?w1"
    by blast
  have len: "length (benefits (store (snd (claimBenefit ''1'' (Fulfilled True) ?w1)))) = 6"
  proof -
    from inst
    have "length (benefits (store (snd (claimBenefit ''1'' (Fulfilled True) ?w1)))) =
        length (benefits (store ?w))"
      by blast
    also have "\<dots> = 6"
      unfolding bs by (simp add: mockBenefits_def)
    finally show ?thesis .
  qed
  show ?thesis
    unfolding Let_def using mem id1 c1 c0 same len by blast
qed

text \<open>
  C9. A successful \<open>claimBenefit(id)\<close> sets \<open>claimed = true\<close> on every entry whose identifier
  equals \<open>id\<close>: there are as many claimed entries with that identifier afterwards as there
  were entries with it before, so two or more when two or more entries share it.
\<close>

theorem claimBenefit_success_all_matching:
  "let bs = benefits (store w);
       bs' = benefits (store (snd (claimBenefit benefitId (Fulfilled True) w)))
   in (\<forall>i < length bs. id_B (bs ! i) = benefitId \<longrightarrow> claimed (bs' ! i)) \<and>
      length (filter (\<lambda>b. id_B b = benefitId \<and> claimed b) bs') =
        length (filter (\<lambda>b. id_B b = benefitId) bs)"
proof -
  let ?bs = "benefits (store w)"
  let ?bs' = "benefits (store (snd (claimBenefit benefitId (Fulfilled True) w)))"
  have "\<forall>i < length ?bs. id_B (?bs ! i) = benefitId \<longrightarrow> claimed (?bs' ! i)"
    unfolding claimBenefit_true_benefits by simp
  moreover have "length (filter (\<lambda>b. id_B b = benefitId \<and> claimed b) ?bs') =
      length (filter (\<lambda>b. id_B b = benefitId) ?bs)"
    unfolding claimBenefit_true_benefits by (rule claim_map_count)
  ultimately show ?thesis
    unfolding Let_def by (rule conjI)
qed
theorem claimBenefit_success_all_matching_witness:
  "let b = \<lparr> id_B = ''1'', title_B = ''a'', description = ''b'', icon = ''c'',
             value_B = ''d'', category = voucher, claimed = False, expiresAt = ''e'',
             terms = None \<rparr>;
       bs = [b, b\<lparr>id_B := ''2''\<rparr>, b\<lparr>title_B := ''f''\<rparr>];
       w = \<lparr> store = \<lparr> user = None, benefits = bs, rewardPoints = None, isLoading = False \<rparr>,
             console = [] \<rparr>;
       bs' = benefits (store (snd (claimBenefit ''1'' (Fulfilled True) w)))
   in (0::nat) < length bs \<and> id_B (bs ! 0) = ''1'' \<and> claimed (bs' ! 0) \<and>
      (2::nat) < length bs \<and> id_B (bs ! 2) = ''1'' \<and> claimed (bs' ! 2) \<and>
      length (filter (\<lambda>b. id_B b = ''1'' \<and> claimed b) bs') = 2 \<and>
      length (filter claimed bs) = 0"
proof -
  let ?b = "\<lparr> id_B = ''1'', title_B = ''a'', description = ''b'', icon = ''c'',
             value_B = ''d'', category = voucher, claimed = False, expiresAt = ''e'',
             terms = None \<rparr>"
  let ?bs = "[?b, ?b\<lparr>id_B := ''2''\<rparr>, ?b\<lparr>title_B := ''f''\<rparr>]"
  let ?w = "\<lparr> store = \<lparr> user = None, benefits = ?bs, rewardPoints = None,
               isLoading = False \<rparr>, console = [] \<rparr>"
  let ?bs' = "benefits (store (snd (claimBenefit ''1'' (Fulfilled True) ?w)))"
  note inst = claimBenefit_success_all_matching [of ?w "''1''", unfolded Let_def]
  from inst have all: "\<forall>i < length ?bs. id_B (?bs ! i) = ''1'' \<longrightarrow> claimed (?bs' ! i)"
    by simp
  from all have c0: "claimed (?bs' ! 0)"
    by simp
  have "(2::nat) < length ?bs" "id_B (?bs ! 2) = ''1''"
    by simp_all
  with all have c2: "claimed (?bs' ! 2)"
    by blast
  from inst have "length (filter (\<lambda>b. id_B b = ''1'' \<and> claimed b) ?bs') =
      length (filter (\<lambda>b. id_B b = ''1'') ?bs)"
    by simp
  then have n: "length (filter (\<lambda>b. id_B b = ''1'' \<and> claimed b) ?bs') = 2"
    by simp
  show ?thesis
    unfolding Let_def using c0 c2 n by simp
qed

text \<open>
  C10. \<open>claimBenefit\<close> writes no field of the store but \<open>benefits\<close>: \<open>user\<close>, \<open>rewardPoints\<close>
  and \<open>isLoading\<close> are after the call what they were before it, however the gateway's
  promise settles.
\<close>

theorem claimBenefit_frame:
  "user (store (snd (claimBenefit benefitId r w))) = user (store w) \<and>
   rewardPoints (store (snd (claimBenefit benefitId r w))) = rewardPoints (store w) \<and>
   isLoading (store (snd (claimBenefit benefitId r w))) = isLoading (store w)"
  by (cases r rule: claimBenefit_cases)
     (simp_all add: claimBenefit_true claimBenefit_false claimBenefit_rejected)

section \<open>A claim that settles after a load\<close>

text \<open>
  C2. When \<open>claimBenefit(id)\<close> is called, a \<open>loadDashboardData\<close> replaces the collection
  while the claim is in flight, and the claim then resolves \<open>true\<close>, the update is made on
  the collection that is current when the claim resolves: the final collection is the
  loaded one with the entries of identifier \<open>id\<close> set to claimed, whichever of the two
  calls was made first and whatever the collection was when the claim was called.
\<close>

theorem claim_settles_after_load:
  "let f = run w [Claim_called benefitId, Load_called, Load_settled (Fulfilled data),
                  Claim_settled benefitId (Fulfilled True)];
       g = run w [Load_called, Claim_called benefitId, Load_settled (Fulfilled data),
                  Claim_settled benefitId (Fulfilled True)]
   in store g = store f \<and>
      length (benefits (store f)) = length (benefits data) \<and>
      (\<forall>i < length (benefits data).
         benefits (store f) ! i =
           (if id_B (benefits data ! i) = benefitId
            then (benefits data ! i)\<lparr>claimed := True\<rparr> else benefits data ! i))"
  by (simp add: run_def claimBenefit_call_def claimBenefit_settle_def
      loadDashboardData_call_def loadDashboardData_settle_def set_store_def)

theorem claim_settles_after_load_witness:
  "let data = \<lparr> user = Some mockUser, benefits = mockBenefits,
                rewardPoints = Some mockRewardPoints, isLoading = False \<rparr>;
       f = run initial_world [Claim_called ''2'', Load_called, Load_settled (Fulfilled data),
                  Claim_settled ''2'' (Fulfilled True)]
   in benefits (store initial_world) = [] \<and> length (benefits (store f)) = 6 \<and>
      (1::nat) < length (benefits data) \<and>
      benefits (store f) ! 1 = (mockBenefits ! 1)\<lparr>claimed := True\<rparr> \<and>
      benefits (store f) ! 0 = mockBenefits ! 0"
proof -
  let ?data = "\<lparr> user = Some mockUser, benefits = mockBenefits,
                rewardPoints = Some mockRewardPoints, isLoading = False \<rparr>"
  let ?f = "run initial_world [Claim_called ''2'', Load_called, Load_settled (Fulfilled ?data),
                  Claim_settled ''2'' (Fulfilled True)]"
  note inst = claim_settles_after_load [of initial_world "''2''" ?data, unfolded Let_def]
  have len: "length mockBenefits = 6"
    by (simp add: mockBenefits_def)
  have id0: "id_B (mockBenefits ! 0) \<noteq> ''2''" and id1: "id_B (mockBenefits ! 1) = ''2''"
    by (simp_all add: mockBenefits_def)
  from inst have l: "length (benefits (store ?f)) = 6"
    using len by simp
  from inst have "\<forall>i < 6. benefits (store ?f) ! i =
           (if id_B (mockBenefits ! i) = ''2''
            then (mockBenefits ! i)\<lparr>claimed := True\<rparr> else mockBenefits ! i)"
    using len by simp
  then have n1: "benefits (store ?f) ! 1 = (mockBenefits ! 1)\<lparr>claimed := True\<rparr>"
    and n0: "benefits (store ?f) ! 0 = mockBenefits ! 0"
    using id0 id1 by simp_all
  have e: "benefits (store initial_world) = []"
    by (simp add: initial_world_def initial_store_def)
  show ?thesis
    unfolding Let_def using l n1 n0 e len by simp
qed

section \<open>Loading\<close>

text \<open>
  C3. \<open>loadDashboardData\<close> ends with \<open>isLoading = false\<close> however the gateway's promise
  settles, also when other events run between the call and the answer, and its own promise
  is fulfilled: nothing is thrown. After a rejection \<open>user\<close>, \<open>benefits\<close> and
  \<open>rewardPoints\<close> are what they were before the call; the state differs from the state
  before the call in the loading flag only.
\<close>

theorem loadDashboardData_clears_loading:
  "fst (loadDashboardData r w) = Fulfilled () \<and>
   \<not> isLoading (store (snd (loadDashboardData r w))) \<and>
   \<not> isLoading (store (run w ([Load_called] @ es @ [Load_settled r]))) \<and>
   fst (loadDashboardData (Rejected e) w) = Fulfilled () \<and>
   user (store (snd (loadDashboardData (Rejected e) w))) = user (store w) \<and>
   benefits (store (snd (loadDashboardData (Rejected e) w))) = benefits (store w) \<and>
   rewardPoints (store (snd (loadDashboardData (Rejected e) w))) = rewardPoints (store w) \<and>
   store (snd (loadDashboardData (Rejected e) w)) = (store w)\<lparr>isLoading := False\<rparr>"
proof -
  have settle: "\<not> isLoading (store (snd (loadDashboardData_settle r w')))" for w'
    by (cases r)
       (simp_all add: loadDashboardData_settle_def loadDashboardData_catch_def set_store_def
          console_error_def)
  have "fst (loadDashboardData r w) = Fulfilled ()"
    by (cases r) (simp_all add: loadDashboardData_fulfilled loadDashboardData_rejected)
  moreover have "\<not> isLoading (store (snd (loadDashboardData r w)))"
    unfolding loadDashboardData_def by (rule settle)
  moreover have "\<not> isLoading (store (run w ([Load_called] @ es @ [Load_settled r])))"
    by (simp only: run_append run_Cons run_Nil step.simps settle not_False_eq_True)
  ultimately show ?thesis
    by (simp add: loadDashboardData_rejected)
qed

text \<open>
  C8. The promise of \<open>getDashboardData\<close> is fulfilled, with a snapshot whose loading flag is
  false. From the initial state (\<open>isLoading = true\<close>, no benefits), after
  \<open>loadDashboardData\<close> the store has \<open>isLoading = false\<close> and six benefits, of which
  exactly one is claimed, the one with identifier \<open>3\<close>.
\<close>

theorem first_load_reference:
  "(\<exists>data. dashboardApi_getDashboardData = Fulfilled data \<and> \<not> isLoading data) \<and>
   isLoading (store initial_world) \<and> benefits (store initial_world) = [] \<and>
   (let result = loadDashboardData dashboardApi_getDashboardData initial_world;
        s = store (snd result)
    in fst result = Fulfilled () \<and> \<not> isLoading s \<and> length (benefits s) = 6 \<and>
       map id_B (filter claimed (benefits s)) = [''3''])"
proof -
  have "\<exists>data. dashboardApi_getDashboardData = Fulfilled data \<and> \<not> isLoading data"
    by (simp add: dashboardApi_getDashboardData_def)
  moreover have "isLoading (store initial_world) \<and> benefits (store initial_world) = []"
    by (simp add: initial_world_def initial_store_def)
  moreover
  have "fst (loadDashboardData dashboardApi_getDashboardData initial_world) = Fulfilled ()"
    by (simp add: dashboardApi_getDashboardData_def loadDashboardData_fulfilled)
  moreover have "length mockBenefits = 6"
    by (simp add: mockBenefits_def)
  moreover have "map id_B (filter claimed mockBenefits) = [''3'']"
    by (simp add: mockBenefits_def)
  ultimately show ?thesis
    by (simp add: loaded_store Let_def)
qed

section \<open>The gateway's answer to a claim\<close>

text \<open>
  C6. With the draw of \<open>Math.random()\<close> as the input \<open>r\<close>, the gateway's \<open>claimBenefit\<close>
  returns \<open>true\<close> exactly when \<open>r > 0.1\<close> and \<open>false\<close> otherwise, and the answer is the
  same for any two identifiers at the same draw. The draws of \<open>[0, 1)\<close> answered with
  \<open>true\<close> are the open interval from \<open>0.1\<close> to \<open>1\<close>, of length \<open>0.9\<close>.
\<close>

theorem dashboardApi_claimBenefit_threshold:
  "(dashboardApi_claimBenefit benefitId r = Fulfilled True) = (r > 0.1) \<and>
   (dashboardApi_claimBenefit benefitId r = Fulfilled False) = (r \<le> 0.1) \<and>
   dashboardApi_claimBenefit benefitId r = dashboardApi_claimBenefit benefitId' r \<and>
   {x. 0 \<le> x \<and> x < 1 \<and> dashboardApi_claimBenefit benefitId x = Fulfilled True}
     = {0.1 <..< 1} \<and>
   (1::real) - 0.1 = 0.9"
  by (auto simp add: dashboardApi_claimBenefit_def)

end
